theory Spec2Isabelle
  imports Main "HOL-Library.Multiset"
begin

section \<open>Data model\<close>

text \<open>
  The controllers of spendlist-api (\<^verbatim>\<open>controllers/user.js\<close> and
  \<^verbatim>\<open>controllers/expense.js\<close>) are Express handlers over two Mongoose
  collections, users and expenses. A handler is modelled as a function from the request,
  the collections and the outcome of every store call to the new collection, the calls it
  made on the response object, and whether it ended in an uncaught \<^verbatim>\<open>TypeError\<close>.

  An ObjectId is only ever compared for equality (\<^verbatim>\<open>indexOf\<close>, string
  comparison of \<^verbatim>\<open>toString()\<close>), so ids are natural numbers.
  \<^verbatim>\<open>mongoose.Types.ObjectId\<close> applied to \<^verbatim>\<open>req.user.id\<close>
  or to the \<^verbatim>\<open>id\<close> of a loaded document returns the id it was given.
\<close>

type_synonym oid = nat

text \<open>
  A value of a JSON or url-encoded request body. A missing field (\<^verbatim>\<open>undefined\<close>)
  is \<open>None\<close> of the option type around it.
\<close>

datatype jsval = JStr string | JBool bool | JNum int | JNull

record profile =
  name :: "string option"

text \<open>
  A user document. The schema of \<^verbatim>\<open>models/User\<close> is not part of the sources;
  \<^verbatim>\<open>addFamily\<close> tests both relationship fields against \<^verbatim>\<open>undefined\<close>,
  so both are optional here.
\<close>

record user =
  uid :: oid
  email :: string
  profile :: "profile option"
  familyMembers :: "oid list option"
  familyMemberRequests :: "oid list option"

text \<open>
  \<^verbatim>\<open>req.user\<close>: the decoded token, as \<^verbatim>\<open>postLogin\<close> signs it
  (\<^verbatim>\<open>id\<close> and the \<^verbatim>\<open>familyMembers\<close> of the user at login).
\<close>

record token =
  tok_id :: oid
  tok_familyMembers :: "oid list option"

record family_req =
  req_user :: token
  body_email :: string
  body_approve :: "jsval option"

text \<open>
  An expense document. \<open>user_id\<close> and \<open>currency\<close> are references;
  \<open>date\<close> and \<open>updatedAt\<close> are instants (milliseconds). \<open>amount\<close>
  is kept as the request sent it.
\<close>

record expense =
  eid :: oid
  user_id :: oid
  amount :: string
  date :: int
  category :: string
  currency :: oid
  comment :: "string option"
  updatedAt :: int

record currency_doc =
  cur_id :: oid
  cur_code :: string

text \<open>
  An expense after \<^verbatim>\<open>populate('user_id')\<close> and
  \<^verbatim>\<open>populate('currency')\<close>: each reference is replaced by the document it
  names, or by \<^verbatim>\<open>null\<close> when there is none.
\<close>

record populated =
  p_expense :: expense
  p_user :: "user option"
  p_currency :: "currency_doc option"

text \<open>
  An element of the list \<^verbatim>\<open>formatExpenses\<close> returns:
  \<^verbatim>\<open>Object.assign({}, el, { user, date })\<close>, the populated expense with a
  \<^verbatim>\<open>user\<close> label added and \<^verbatim>\<open>date\<close> overwritten by its
  formatted text.
\<close>

record formatted =
  f_el :: populated
  f_user :: string
  f_date :: string

record expense_req =
  ereq_user :: token
  body_amount :: "string option"
  body_date :: "string option"
  body_category :: "string option"
  body_currency :: "string option"
  body_comment :: "string option"
  body_user_id :: "string option"

text \<open>
  What a handler passes to \<^verbatim>\<open>req.flash\<close> or sends as an error: a message
  object, the array of \<^verbatim>\<open>req.validationErrors()\<close>, or the error object of a
  failed store call.
\<close>

datatype payload = Msg string | ValidationErrors "string list" | StoreError

text \<open>
  Functions of the libraries the handlers call (express-validator, moment, the ObjectId
  constructor on request input). Their code is outside the repository; the handlers take
  them as parameters. \<open>ObjectId\<close> returns \<open>None\<close> where the constructor throws.
\<close>

record lib =
  isEmail :: "string \<Rightarrow> bool"
  normalizeEmail :: "string \<Rightarrow> string"
  moment_parse :: "string \<Rightarrow> int"
  moment_format :: "int \<Rightarrow> string"
  ObjectId :: "string \<Rightarrow> oid option"

text \<open>The body of a JSON response.\<close>

datatype body =
  ErrorBody payload
| ExpensesBody "formatted list" "currency_doc list"
| ExpenseBody expense

text \<open>
  The calls a handler makes on the response: \<^verbatim>\<open>req.flash(kind, payload)\<close>,
  \<^verbatim>\<open>res.redirect(path)\<close>, \<^verbatim>\<open>res.status(code).json(body)\<close>
  (or \<^verbatim>\<open>.send\<close>) and \<^verbatim>\<open>next(err)\<close>, in the order made.
\<close>

datatype event = Flash string payload | Redirect string | Respond nat body | Next_err

text \<open>
  The outcome of a handler: the collection it leaves, the calls it made on the response,
  and whether it ended by throwing (a property read of \<^verbatim>\<open>null\<close> or
  \<^verbatim>\<open>undefined\<close>, or a throwing constructor).
\<close>

record 's result =
  store :: 's
  events :: "event list"
  thrown :: bool

section \<open>The user collection\<close>

definition findOne_email :: "string \<Rightarrow> user list \<Rightarrow> user option" where
  "findOne_email e db = find (\<lambda>u. email u = e) db"

definition findById :: "oid \<Rightarrow> user list \<Rightarrow> user option" where
  "findById i db = find (\<lambda>u. uid u = i) db"

text \<open>
  \<^verbatim>\<open>doc.save()\<close> of a document that was loaded from the collection: the stored
  document with that \<^verbatim>\<open>_id\<close> is replaced.
\<close>

fun save_user :: "user \<Rightarrow> user list \<Rightarrow> user list" where
  "save_user u [] = []"
| "save_user u (v # vs) = (if uid v = uid u then u # vs else v # save_user u vs)"

section \<open>controllers/user.js\<close>

text \<open>
  The local \<^verbatim>\<open>handleError\<close> of \<^verbatim>\<open>addFamily\<close> and
  \<^verbatim>\<open>approveFamily\<close>.
\<close>

definition handleError :: "payload \<Rightarrow> event list" where
  "handleError err = [Flash ''errors'' err, Redirect ''/account'']"

text \<open>
  \<^verbatim>\<open>if (xs.indexOf(x) === -1) { xs.push(x); }\<close>
\<close>

definition push_absent :: "oid \<Rightarrow> oid list \<Rightarrow> oid list" where
  "push_absent x xs = (if x \<notin> set xs then xs @ [x] else xs)"

text \<open>
  Whether each store call of \<^verbatim>\<open>addFamily\<close> calls back with an error.
\<close>

record addFamily_faults =
  add_findOne_err :: bool
  add_save_err :: bool

text \<open>
  \<^verbatim>\<open>exports.addFamily\<close>. express-validator reads a missing
  \<^verbatim>\<open>email\<close> as the empty string. A store call that fails calls back with
  the error and no document.
\<close>

definition addFamily ::
  "lib \<Rightarrow> addFamily_faults \<Rightarrow> family_req \<Rightarrow> user list \<Rightarrow> user list result" where
  "addFamily L flt req db =
    (let errors = (if isEmail L (body_email req) then []
                   else [''Please enter a valid email address.'']);
         em = normalizeEmail L (body_email req)
     in if errors \<noteq> [] then
          \<lparr>store = db, events = handleError (ValidationErrors errors), thrown = False\<rparr>
        else if add_findOne_err flt then
          \<lparr>store = db, events = handleError StoreError, thrown = False\<rparr>
        else
          (case findOne_email em db of
             None \<Rightarrow>
               \<lparr>store = db,
                events = handleError (Msg ''Account with that email address does not exist.''),
                thrown = False\<rparr>
           | Some user \<Rightarrow>
               (let members = (case familyMembers user of None \<Rightarrow> [] | Some xs \<Rightarrow> xs);
                    requests = (case familyMemberRequests user of None \<Rightarrow> [] | Some xs \<Rightarrow> xs);
                    userId = tok_id (req_user req)
                in if userId \<notin> set members \<and> userId \<notin> set requests then
                     (let user' = user\<lparr>familyMembers := Some members,
                                         familyMemberRequests := Some (requests @ [userId])\<rparr>
                      in if add_save_err flt then
                           \<lparr>store = db, events = handleError StoreError, thrown = False\<rparr>
                         else
                           \<lparr>store = save_user user' db,
                            events = [Flash ''success''
                                        (Msg ''Add family member request has been sent.''),
                                      Redirect ''/account''],
                            thrown = False\<rparr>)
                   else
                     \<lparr>store = db,
                      events = handleError
                        (Msg ''Account you're trying to add is already your family member.''),
                      thrown = False\<rparr>)))"

text \<open>
  Whether each store call of \<^verbatim>\<open>approveFamily\<close> calls back with an error:
  \<^verbatim>\<open>User.findOne\<close>, \<^verbatim>\<open>user.save\<close>,
  \<^verbatim>\<open>User.findById\<close> and \<^verbatim>\<open>me.save\<close>.
\<close>

record approveFamily_faults =
  findOne_err :: bool
  user_save_err :: bool
  findById_err :: bool
  me_save_err :: bool

text \<open>
  The callback of \<^verbatim>\<open>User.findById(myUserId, ...)\<close> in the branch
  \<^verbatim>\<open>approve === 'true'\<close>, entered with the collection \<open>db\<close> and
  the calls \<open>ev\<close> made so far. \<^verbatim>\<open>handleError(err)\<close> is not
  returned from, so the body runs on with \<^verbatim>\<open>me\<close> undefined and throws.
\<close>

definition approve_me ::
  "approveFamily_faults \<Rightarrow> oid \<Rightarrow> oid \<Rightarrow> user list \<Rightarrow> event list \<Rightarrow> user list result" where
  "approve_me flt myUserId familyUserId db ev =
    (let me = (if findById_err flt then None else findById myUserId db);
         ev' = ev @ (if findById_err flt then handleError StoreError else [])
     in case me of
          None \<Rightarrow> \<lparr>store = db, events = ev', thrown = True\<rparr>
        | Some me \<Rightarrow>
            (case familyMembers me of
               None \<Rightarrow> \<lparr>store = db, events = ev', thrown = True\<rparr>
             | Some members \<Rightarrow>
                 (case familyMemberRequests me of
                    None \<Rightarrow> \<lparr>store = db, events = ev', thrown = True\<rparr>
                  | Some requests \<Rightarrow>
                      (let me' = me\<lparr>familyMembers := Some (push_absent familyUserId members),
                                       familyMemberRequests :=
                                         Some (filter (\<lambda>el. el \<noteq> familyUserId) requests)\<rparr>
                       in if me_save_err flt then
                            \<lparr>store = db, events = ev' @ handleError StoreError, thrown = False\<rparr>
                          else
                            \<lparr>store = save_user me' db,
                             events = ev' @ [Flash ''success''
                                               (Msg ''Family member request approved.''),
                                             Redirect ''/account''],
                             thrown = False\<rparr>))))"

text \<open>
  The callback of \<^verbatim>\<open>User.findById(myUserId, ...)\<close> in the branch
  \<^verbatim>\<open>approve === 'false'\<close>.
\<close>

definition reject_me ::
  "approveFamily_faults \<Rightarrow> oid \<Rightarrow> oid \<Rightarrow> user list \<Rightarrow> event list \<Rightarrow> user list result" where
  "reject_me flt myUserId familyUserId db ev =
    (let me = (if findById_err flt then None else findById myUserId db);
         ev' = ev @ (if findById_err flt then handleError StoreError else [])
     in case me of
          None \<Rightarrow> \<lparr>store = db, events = ev', thrown = True\<rparr>
        | Some me \<Rightarrow>
            (case familyMemberRequests me of
               None \<Rightarrow> \<lparr>store = db, events = ev', thrown = True\<rparr>
             | Some requests \<Rightarrow>
                 (let me' = me\<lparr>familyMemberRequests :=
                                  Some (filter (\<lambda>el. el \<noteq> familyUserId) requests)\<rparr>
                  in if me_save_err flt then
                       \<lparr>store = db, events = ev' @ handleError StoreError, thrown = False\<rparr>
                     else
                       \<lparr>store = save_user me' db,
                        events = ev' @ [Flash ''info''
                                          (Msg ''Family member request rejected.''),
                                        Redirect ''/account''],
                        thrown = False\<rparr>)))"

text \<open>
  \<^verbatim>\<open>exports.approveFamily\<close>. Neither the test of
  \<^verbatim>\<open>req.body.approve\<close> against \<^verbatim>\<open>undefined\<close> nor the
  test of \<^verbatim>\<open>err\<close> in the callback of \<^verbatim>\<open>User.findOne\<close>
  returns, and \<^verbatim>\<open>user\<close> is not tested before \<^verbatim>\<open>user.id\<close>
  is read.
\<close>

definition approveFamily ::
  "lib \<Rightarrow> approveFamily_faults \<Rightarrow> family_req \<Rightarrow> user list \<Rightarrow> user list result" where
  "approveFamily L flt req db =
    (let ev0 = (if body_approve req = None then handleError (Msg ''Request error'') else []);
         em = normalizeEmail L (body_email req);
         myUserId = tok_id (req_user req);
         user = (if findOne_err flt then None else findOne_email em db);
         ev1 = ev0 @ (if findOne_err flt then handleError StoreError else [])
     in case user of
          None \<Rightarrow> \<lparr>store = db, events = ev1, thrown = True\<rparr>
        | Some user \<Rightarrow>
            (let familyUserId = uid user
             in if body_approve req = Some (JStr ''true'') then
                  (case familyMembers user of
                     None \<Rightarrow> \<lparr>store = db, events = ev1, thrown = True\<rparr>
                   | Some members \<Rightarrow>
                       (let user' = user\<lparr>familyMembers := Some (push_absent myUserId members)\<rparr>
                        in if user_save_err flt then
                             \<lparr>store = db, events = ev1 @ handleError StoreError, thrown = False\<rparr>
                           else
                             approve_me flt myUserId familyUserId (save_user user' db) ev1))
                else if body_approve req = Some (JStr ''false'') then
                  reject_me flt myUserId familyUserId db ev1
                else
                  \<lparr>store = db, events = ev1, thrown = False\<rparr>))"

section \<open>controllers/expense.js\<close>

text \<open>
  \<^verbatim>\<open>req.assert(field, msg).notEmpty()\<close>: in the express-validator
  interface the handlers use (outside the repository), \<^verbatim>\<open>notEmpty()\<close> is
  \<^verbatim>\<open>isLength({ min: 1 })\<close>, and a missing field is read as the empty
  string. A string of white space has length at least 1 and passes.
\<close>

definition notEmpty :: "string option \<Rightarrow> bool" where
  "notEmpty v = (case v of None \<Rightarrow> False | Some s \<Rightarrow> 1 \<le> length s)"

text \<open>
  \<^verbatim>\<open>.populate('user_id').populate('currency')\<close> on one expense.
\<close>

definition populate :: "user list \<Rightarrow> currency_doc list \<Rightarrow> expense \<Rightarrow> populated" where
  "populate users currencies e =
     \<lparr>p_expense = e,
      p_user = findById (user_id e) users,
      p_currency = find (\<lambda>c. cur_id c = currency e) currencies\<rparr>"

text \<open>
  \<^verbatim>\<open>.sort({ date: -1, updatedAt: -1 })\<close> is run by the store: by
  \<open>date\<close> descending, then by \<open>updatedAt\<close> descending. \<open>newer a b\<close>
  says that \<open>a\<close> may stand before \<open>b\<close> in that order; the sort is
  modelled as an insertion sort under it.
\<close>

definition newer :: "expense \<Rightarrow> expense \<Rightarrow> bool" where
  "newer a b = (date b < date a \<or> (date a = date b \<and> updatedAt b \<le> updatedAt a))"

fun insert_sorted :: "expense \<Rightarrow> expense list \<Rightarrow> expense list" where
  "insert_sorted x [] = [x]"
| "insert_sorted x (y # ys) = (if newer x y then x # y # ys else y # insert_sorted x ys)"

definition sort_expenses :: "expense list \<Rightarrow> expense list" where
  "sort_expenses xs = foldr insert_sorted xs []"

text \<open>
  The function \<^verbatim>\<open>formatExpenses\<close> maps over the expenses. Where
  \<^verbatim>\<open>populate\<close> left \<^verbatim>\<open>el.user_id\<close> null, reading
  \<^verbatim>\<open>el.user_id.profile\<close> throws: \<open>None\<close>. An empty name is falsy
  in \<^verbatim>\<open>(profile && profile.name) || email\<close>.
\<close>

definition format_el :: "lib \<Rightarrow> oid \<Rightarrow> populated \<Rightarrow> formatted option" where
  "format_el L userId el =
    (let date_text = moment_format L (date (p_expense el))
     in case p_user el of
          None \<Rightarrow> None
        | Some owner \<Rightarrow>
            (let user = (case profile owner of
                           None \<Rightarrow> email owner
                         | Some p \<Rightarrow> (case name p of
                                        None \<Rightarrow> email owner
                                      | Some n \<Rightarrow> if n = [] then email owner else n));
                 user' = (if uid owner = userId then ''Me'' else user)
             in Some \<lparr>f_el = el, f_user = user', f_date = date_text\<rparr>))"

text \<open>
  \<^verbatim>\<open>expenses.map(...)\<close>: an element that throws ends the map.
\<close>

fun formatExpenses :: "lib \<Rightarrow> populated list \<Rightarrow> oid \<Rightarrow> formatted list option" where
  "formatExpenses L [] userId = Some []"
| "formatExpenses L (el # els) userId =
     (case format_el L userId el of
        None \<Rightarrow> None
      | Some f \<Rightarrow> (case formatExpenses L els userId of
                    None \<Rightarrow> None
                  | Some fs \<Rightarrow> Some (f # fs)))"

text \<open>
  Whether \<^verbatim>\<open>Expense.find\<close> and \<^verbatim>\<open>Currency.find\<close> call back
  with an error.
\<close>

record getExpenses_faults =
  expense_find_err :: bool
  currency_find_err :: bool

text \<open>
  \<^verbatim>\<open>exports.getExpenses\<close> (the version that answers in JSON).
  \<open>usr\<close> is \<^verbatim>\<open>req.user\<close>; spreading its
  \<^verbatim>\<open>familyMembers\<close> throws when the token carries none. The handler reads
  the expenses \<open>db\<close> and leaves them as they are.
\<close>

definition getExpenses ::
  "lib \<Rightarrow> getExpenses_faults \<Rightarrow> token \<Rightarrow> user list \<Rightarrow> currency_doc list \<Rightarrow> expense list
     \<Rightarrow> expense list result" where
  "getExpenses L flt usr users currencies db =
    (case tok_familyMembers usr of
       None \<Rightarrow> \<lparr>store = db, events = [], thrown = True\<rparr>
     | Some family \<Rightarrow>
         (let owners = tok_id usr # family
          in if expense_find_err flt then
               \<lparr>store = db,
                events = [Respond 400 (ErrorBody (Msg ''Can not get expenses'')), Next_err],
                thrown = False\<rparr>
             else
               (let expenses = map (populate users currencies)
                                 (sort_expenses (filter (\<lambda>e. user_id e \<in> set owners) db))
                in if currency_find_err flt then
                     \<lparr>store = db,
                      events = [Respond 400 (ErrorBody (Msg ''Can not get currencies'')), Next_err],
                      thrown = False\<rparr>
                   else
                     (case formatExpenses L expenses (tok_id usr) of
                        None \<Rightarrow> \<lparr>store = db, events = [], thrown = True\<rparr>
                      | Some formatted \<Rightarrow>
                          \<lparr>store = db,
                           events = [Respond 200 (ExpensesBody formatted currencies)],
                           thrown = False\<rparr>))))"

text \<open>
  What the store decides in \<^verbatim>\<open>postExpense\<close>: whether
  \<^verbatim>\<open>expense.save\<close> calls back with an error, the \<^verbatim>\<open>_id\<close>
  of the new document and its \<^verbatim>\<open>updatedAt\<close>.
\<close>

record postExpense_env =
  save_err :: bool
  new_id :: oid
  now :: int

text \<open>
  \<^verbatim>\<open>exports.postExpense\<close> (the version that answers in JSON). Past the
  validation the four fields are present, so the last case of the match is never taken.
  \<^verbatim>\<open>mongoose.Types.ObjectId(req.body.currency)\<close> throws on a string that
  is no ObjectId. When the save fails the handler sends the 500 and, not returning, the
  200 after it. \<open>body_user_id\<close> stands for an owner field in the body, which
  the handler never reads.
\<close>

definition postExpense ::
  "lib \<Rightarrow> postExpense_env \<Rightarrow> expense_req \<Rightarrow> expense list \<Rightarrow> expense list result" where
  "postExpense L env req db =
    (let errors =
           (if notEmpty (body_amount req) then [] else [''Amount can not be blank''])
         @ (if notEmpty (body_date req) then [] else [''Date can not be blank''])
         @ (if notEmpty (body_category req) then [] else [''Category can not be blank''])
         @ (if notEmpty (body_currency req) then [] else [''Currency can not be blank''])
     in if errors \<noteq> [] then
          \<lparr>store = db, events = [Respond 400 (ErrorBody (ValidationErrors errors))],
           thrown = False\<rparr>
        else
          (case (body_amount req, body_date req, body_category req, body_currency req) of
             (Some a, Some d, Some c, Some cur) \<Rightarrow>
               (case ObjectId L cur of
                  None \<Rightarrow> \<lparr>store = db, events = [], thrown = True\<rparr>
                | Some currencyId \<Rightarrow>
                    (let expense = \<lparr>eid = new_id env,
                                    user_id = tok_id (ereq_user req),
                                    amount = a,
                                    date = moment_parse L d,
                                    category = c,
                                    currency = currencyId,
                                    comment = body_comment req,
                                    updatedAt = now env\<rparr>
                     in if save_err env then
                          \<lparr>store = db,
                           events = [Respond 500 (ErrorBody StoreError),
                                     Respond 200 (ExpenseBody expense)],
                           thrown = False\<rparr>
                        else
                          \<lparr>store = db @ [expense],
                           events = [Respond 200 (ExpenseBody expense)],
                           thrown = False\<rparr>))
           | _ \<Rightarrow> \<lparr>store = db, events = [], thrown = True\<rparr>))"

section \<open>Notions of the specification\<close>

text \<open>
  \<open>visibleOwners(viewerId) = {viewerId} \<union> viewer.familyMembers\<close> in the words
  of the specification: \<open>viewer\<close> is the identity stored under
  \<open>viewerId\<close>, and \<open>familyMembers\<close> is the list of that stored
  identity.
\<close>

definition visibleOwners :: "user list \<Rightarrow> oid \<Rightarrow> oid set" where
  "visibleOwners users viewerId =
     insert viewerId
       (case findById viewerId users of
          None \<Rightarrow> {}
        | Some viewer \<Rightarrow> (case familyMembers viewer of None \<Rightarrow> {} | Some fam \<Rightarrow> set fam))"

text \<open>
  The ids \<^verbatim>\<open>getExpenses\<close> puts in its \<^verbatim>\<open>$in\<close> list:
  \<^verbatim>\<open>req.user.id\<close> and \<^verbatim>\<open>req.user.familyMembers\<close>, the
  list \<^verbatim>\<open>postLogin\<close> signed into the token.
\<close>

definition tokenOwners :: "token \<Rightarrow> oid set" where
  "tokenOwners usr =
     insert (tok_id usr) (case tok_familyMembers usr of None \<Rightarrow> {} | Some fam \<Rightarrow> set fam)"

text \<open>
  \<^verbatim>\<open>approveFamily\<close> reports success.
\<close>

definition approved :: "'s result \<Rightarrow> bool" where
  "approved r = (Flash ''success'' (Msg ''Family member request approved.'') \<in> set (events r))"

text \<open>
  No \<open>familyMembers\<close> list of the collection holds an id twice.
\<close>

definition no_duplicates :: "user list \<Rightarrow> bool" where
  "no_duplicates db =
     (\<forall>u \<in> set db. case familyMembers u of None \<Rightarrow> True | Some ms \<Rightarrow> distinct ms)"

section \<open>A scenario: Alice and Bob\<close>

text \<open>
  The scenario of the specification: Alice (id 1) and Bob (id 2), both with empty
  relationship lists after signup; Bob asks to be linked to Alice, Alice resolves the
  request; expenses of Alice, of Bob and of a third user (id 3). \<open>lib0\<close> fixes
  the library functions on the values the scenario uses.
\<close>

definition lib0 :: lib where
  "lib0 = \<lparr>isEmail = (\<lambda>s. CHR ''@'' \<in> set s),
           normalizeEmail = (\<lambda>s. s),
           moment_parse = (\<lambda>s. if s = ''01-01-2024'' then 1704067200000 else 0),
           moment_format = (\<lambda>t. if t = 1704067200000 then ''01-01-2024 Mon'' else ''Invalid date''),
           ObjectId = (\<lambda>s. if s = ''5a0000000000000000000007'' then Some 7 else None)\<rparr>"

definition alice :: user where
  "alice = \<lparr>uid = 1, email = ''alice@example.com'', profile = Some \<lparr>name = Some ''Alice''\<rparr>,
            familyMembers = Some [], familyMemberRequests = Some []\<rparr>"

definition bob :: user where
  "bob = \<lparr>uid = 2, email = ''bob@example.com'', profile = None,
          familyMembers = Some [], familyMemberRequests = Some []\<rparr>"

definition bob_asks_alice :: family_req where
  "bob_asks_alice = \<lparr>req_user = \<lparr>tok_id = 2, tok_familyMembers = Some []\<rparr>,
                     body_email = ''alice@example.com'', body_approve = None\<rparr>"

definition alice_resolves :: "string \<Rightarrow> jsval option \<Rightarrow> family_req" where
  "alice_resolves e v = \<lparr>req_user = \<lparr>tok_id = 1, tok_familyMembers = Some []\<rparr>,
                     body_email = e, body_approve = v\<rparr>"

definition no_faults :: approveFamily_faults where
  "no_faults = \<lparr>findOne_err = False, user_save_err = False, findById_err = False,
                me_save_err = False\<rparr>"

definition me_save_fails :: approveFamily_faults where
  "me_save_fails = \<lparr>findOne_err = False, user_save_err = False, findById_err = False,
                me_save_err = True\<rparr>"

definition usd :: currency_doc where
  "usd = \<lparr>cur_id = 7, cur_code = ''USD''\<rparr>"

definition lunch :: expense where
  "lunch = \<lparr>eid = 10, user_id = 1, amount = ''10'', date = 1704067200000, category = ''food'',
            currency = 7, comment = None, updatedAt = 1704070000000\<rparr>"

definition taxi :: expense where
  "taxi = \<lparr>eid = 11, user_id = 2, amount = ''25'', date = 1704067200000, category = ''travel'',
           currency = 7, comment = Some ''airport'', updatedAt = 1704080000000\<rparr>"

definition rent :: expense where
  "rent = \<lparr>eid = 12, user_id = 3, amount = ''900'', date = 1704153600000, category = ''home'',
           currency = 7, comment = None, updatedAt = 1704153600000\<rparr>"

definition family :: "user list" where
  "family = [alice\<lparr>familyMembers := Some [2]\<rparr>, bob\<lparr>familyMembers := Some [1]\<rparr>]"

definition bob_token :: token where
  "bob_token = \<lparr>tok_id = 2, tok_familyMembers = Some [1]\<rparr>"

text \<open>
  The token Bob was given at login, before Alice approved him.
\<close>

definition bob_login_token :: token where
  "bob_login_token = \<lparr>tok_id = 2, tok_familyMembers = Some []\<rparr>"

definition alice_posts :: expense_req where
  "alice_posts = \<lparr>ereq_user = \<lparr>tok_id = 1, tok_familyMembers = Some [2]\<rparr>,
                  body_amount = Some ''10'', body_date = Some ''01-01-2024'',
                  body_category = Some ''food'',
                  body_currency = Some ''5a0000000000000000000007'',
                  body_comment = None, body_user_id = Some ''2''\<rparr>"


section \<open>Evaluating the scenario\<close>

lemmas ex_defs = lib0_def alice_def bob_def bob_asks_alice_def alice_resolves_def no_faults_def
  me_save_fails_def findOne_email_def findById_def handleError_def push_absent_def

lemmas ex2_defs = usd_def lunch_def taxi_def rent_def family_def bob_token_def alice_posts_def
  populate_def format_el_def sort_expenses_def newer_def visibleOwners_def tokenOwners_def
  notEmpty_def bob_login_token_def

section \<open>Properties of the user collection\<close>

lemma findById_Some_uid: "findById i db = Some u \<Longrightarrow> uid u = i \<and> u \<in> set db"
  unfolding findById_def by (induction db) (auto split: if_splits)

lemma findOne_email_Some: "findOne_email e db = Some u \<Longrightarrow> email u = e \<and> u \<in> set db"
  unfolding findOne_email_def by (induction db) (auto split: if_splits)

lemma mem_findById: "u \<in> set db \<Longrightarrow> findById (uid u) db \<noteq> None"
  unfolding findById_def by (induction db) auto

lemma findById_save_user:
  "findById i (save_user u db) =
     (if i = uid u \<and> findById i db \<noteq> None then Some u else findById i db)"
  unfolding findById_def by (induction db) auto


lemma findOne_email_save_user:
  "findOne_email e db = Some u \<Longrightarrow> email u' = e \<Longrightarrow> uid u' = uid u \<Longrightarrow>
   findOne_email e (save_user u' db) = Some u'"
  unfolding findOne_email_def by (induction db) (auto split: if_splits)


lemma set_save_user: "set (save_user u db) \<subseteq> insert u (set db)"
  by (induction db) auto

lemma distinct_push_absent: "distinct xs \<Longrightarrow> distinct (push_absent x xs)"
  by (simp add: push_absent_def)

lemma in_push_absent: "x \<in> set (push_absent x xs)"
  by (simp add: push_absent_def)

lemma set_push_absent: "set (push_absent x xs) = insert x (set xs)"
  by (auto simp add: push_absent_def)

lemma no_duplicates_save_user:
  "no_duplicates db \<Longrightarrow> (case familyMembers u of None \<Rightarrow> True | Some ms \<Rightarrow> distinct ms) \<Longrightarrow>
   no_duplicates (save_user u db)"
  using set_save_user[of u db] unfolding no_duplicates_def by blast

lemma no_duplicates_findById:
  "no_duplicates db \<Longrightarrow> findById i db = Some u \<Longrightarrow> familyMembers u = Some ms \<Longrightarrow> distinct ms"
  using findById_Some_uid[of i db u] unfolding no_duplicates_def by fastforce

section \<open>addFamily\<close>

text \<open>
  The two outcomes of \<^verbatim>\<open>addFamily\<close> once the e-mail is valid and the
  lookup has returned a user.
\<close>

lemma addFamily_already:
  assumes "isEmail L (body_email req)"
    and "\<not> add_findOne_err flt"
    and "findOne_email (normalizeEmail L (body_email req)) db = Some B"
    and "tok_id (req_user req) \<in> set (case familyMembers B of None \<Rightarrow> [] | Some xs \<Rightarrow> xs)
       \<or> tok_id (req_user req) \<in> set (case familyMemberRequests B of None \<Rightarrow> [] | Some xs \<Rightarrow> xs)"
  shows "addFamily L flt req db =
           \<lparr>store = db,
            events = handleError
              (Msg ''Account you're trying to add is already your family member.''),
            thrown = False\<rparr>"
  using assms by (auto simp: addFamily_def Let_def)

lemma addFamily_fresh:
  assumes "isEmail L (body_email req)"
    and "\<not> add_findOne_err flt"
    and "findOne_email (normalizeEmail L (body_email req)) db = Some B"
    and "tok_id (req_user req) \<notin> set (case familyMembers B of None \<Rightarrow> [] | Some xs \<Rightarrow> xs)"
    and "tok_id (req_user req) \<notin> set (case familyMemberRequests B of None \<Rightarrow> [] | Some xs \<Rightarrow> xs)"
    and "\<not> add_save_err flt"
  shows "addFamily L flt req db =
           \<lparr>store = save_user
              (B\<lparr>familyMembers := Some (case familyMembers B of None \<Rightarrow> [] | Some xs \<Rightarrow> xs),
                 familyMemberRequests :=
                   Some ((case familyMemberRequests B of None \<Rightarrow> [] | Some xs \<Rightarrow> xs)
                         @ [tok_id (req_user req)])\<rparr>) db,
            events = [Flash ''success'' (Msg ''Add family member request has been sent.''),
                      Redirect ''/account''],
            thrown = False\<rparr>"
  using assms by (auto simp: addFamily_def Let_def)

text \<open>
  Claim C4. Let the e-mail of the request be valid and resolve, without a store error, to
  the user \<open>B\<close>, and let \<open>A\<close> be the caller. If \<open>A\<close> is already in
  \<open>B\<close>'s \<open>familyMembers\<close> or \<open>familyMemberRequests\<close>, the
  handler answers with the error "already your family member" and the collection is
  unchanged. Otherwise, when the save succeeds, \<open>A\<close> is appended to
  \<open>B\<close>'s \<open>familyMemberRequests\<close> and that is what is stored for
  \<open>B\<close>; a second, identical request on the resulting collection then gets the
  error and changes nothing.
\<close>

theorem addFamily_request:
  assumes valid: "isEmail L (body_email req)"
    and nofault: "\<not> add_findOne_err flt"
    and B: "findOne_email (normalizeEmail L (body_email req)) db = Some B"
    and members: "members = (case familyMembers B of None \<Rightarrow> [] | Some xs \<Rightarrow> xs)"
    and requests: "requests = (case familyMemberRequests B of None \<Rightarrow> [] | Some xs \<Rightarrow> xs)"
    and A: "A = tok_id (req_user req)"
  shows "(A \<in> set members \<or> A \<in> set requests \<longrightarrow>
            addFamily L flt req db =
              \<lparr>store = db,
               events = handleError
                 (Msg ''Account you're trying to add is already your family member.''),
               thrown = False\<rparr>)
       \<and> (A \<notin> set members \<and> A \<notin> set requests \<and> \<not> add_save_err flt \<longrightarrow>
            addFamily L flt req db =
              \<lparr>store = save_user (B\<lparr>familyMembers := Some members,
                                      familyMemberRequests := Some (requests @ [A])\<rparr>) db,
               events = [Flash ''success'' (Msg ''Add family member request has been sent.''),
                         Redirect ''/account''],
               thrown = False\<rparr>
          \<and> map_option familyMemberRequests
               (findById (uid B) (store (addFamily L flt req db))) = Some (Some (requests @ [A]))
          \<and> (\<forall>flt'::addFamily_faults. \<not> add_findOne_err flt' \<longrightarrow>
               addFamily L flt' req (store (addFamily L flt req db)) =
                 \<lparr>store = store (addFamily L flt req db),
                  events = handleError
                    (Msg ''Account you're trying to add is already your family member.''),
                  thrown = False\<rparr>))"
proof (intro conjI impI)
  assume "A \<in> set members \<or> A \<in> set requests"
  then show "addFamily L flt req db =
              \<lparr>store = db,
               events = handleError
                 (Msg ''Account you're trying to add is already your family member.''),
               thrown = False\<rparr>"
    using addFamily_already[OF valid nofault B] by (simp add: members requests A)
next
  assume fresh: "A \<notin> set members \<and> A \<notin> set requests \<and> \<not> add_save_err flt"
  define B' where "B' = B\<lparr>familyMembers := Some members,
                          familyMemberRequests := Some (requests @ [A])\<rparr>"
  show first: "addFamily L flt req db =
              \<lparr>store = save_user (B\<lparr>familyMembers := Some members,
                                      familyMemberRequests := Some (requests @ [A])\<rparr>) db,
               events = [Flash ''success'' (Msg ''Add family member request has been sent.''),
                         Redirect ''/account''],
               thrown = False\<rparr>"
    using addFamily_fresh[OF valid nofault B] fresh by (simp add: members requests A)
  then have st: "store (addFamily L flt req db) = save_user B' db"
    by (simp add: B'_def)
  have "findById (uid B) db \<noteq> None"
    using findOne_email_Some[OF B] mem_findById by blast
  then have "findById (uid B) (save_user B' db) = Some B'"
    by (simp add: findById_save_user B'_def)
  then show "map_option familyMemberRequests
               (findById (uid B) (store (addFamily L flt req db))) = Some (Some (requests @ [A]))"
    by (simp add: st B'_def)
  have B'': "findOne_email (normalizeEmail L (body_email req)) (save_user B' db) = Some B'"
    using findOne_email_Some[OF B] by (intro findOne_email_save_user[OF B]) (simp_all add: B'_def)
  show "\<forall>flt'::addFamily_faults. \<not> add_findOne_err flt' \<longrightarrow>
               addFamily L flt' req (store (addFamily L flt req db)) =
                 \<lparr>store = store (addFamily L flt req db),
                  events = handleError
                    (Msg ''Account you're trying to add is already your family member.''),
                  thrown = False\<rparr>"
  proof (intro allI impI)
    fix flt' :: addFamily_faults assume nf: "\<not> add_findOne_err flt'"
    have "tok_id (req_user req) \<in> set (case familyMemberRequests B' of None \<Rightarrow> [] | Some xs \<Rightarrow> xs)"
      by (simp add: B'_def A)
    then show "addFamily L flt' req (store (addFamily L flt req db)) =
                 \<lparr>store = store (addFamily L flt req db),
                  events = handleError
                    (Msg ''Account you're trying to add is already your family member.''),
                  thrown = False\<rparr>"
      unfolding st using addFamily_already[OF valid nf B''] by simp
  qed
qed

text \<open>
  Bob asks for a link to Alice twice.
\<close>

theorem addFamily_request_witness:
  "isEmail lib0 (body_email bob_asks_alice)
   \<and> findOne_email (normalizeEmail lib0 (body_email bob_asks_alice)) [alice, bob] = Some alice
   \<and> addFamily lib0 \<lparr>add_findOne_err = False, add_save_err = False\<rparr> bob_asks_alice [alice, bob]
       = \<lparr>store = [alice\<lparr>familyMemberRequests := Some [2]\<rparr>, bob],
          events = [Flash ''success'' (Msg ''Add family member request has been sent.''),
                    Redirect ''/account''],
          thrown = False\<rparr>
   \<and> addFamily lib0 \<lparr>add_findOne_err = False, add_save_err = False\<rparr> bob_asks_alice
        [alice\<lparr>familyMemberRequests := Some [2]\<rparr>, bob]
       = \<lparr>store = [alice\<lparr>familyMemberRequests := Some [2]\<rparr>, bob],
          events = handleError
            (Msg ''Account you're trying to add is already your family member.''),
          thrown = False\<rparr>"
proof -
  have h1: "isEmail lib0 (body_email bob_asks_alice)" by (simp add: ex_defs)
  have h2: "\<not> add_findOne_err \<lparr>add_findOne_err = False, add_save_err = False\<rparr>" by simp
  have h3: "findOne_email (normalizeEmail lib0 (body_email bob_asks_alice)) [alice, bob] = Some alice"
    by (simp add: ex_defs)
  have h3': "findOne_email (normalizeEmail lib0 (body_email bob_asks_alice))
               [alice\<lparr>familyMemberRequests := Some [2]\<rparr>, bob]
             = Some (alice\<lparr>familyMemberRequests := Some [2]\<rparr>)"
    by (simp add: ex_defs)
  show ?thesis
    using h1 h3 addFamily_request[OF h1 h2 h3 refl refl refl]
      addFamily_request[OF h1 h2 h3' refl refl refl]
    by (simp add: ex_defs)
qed

section \<open>approveFamily\<close>

text \<open>
  When the inner callback reports success, the caller's document was found, both of its
  lists were defined and the save went through.
\<close>

lemma approve_me_cases:
  "approved (approve_me flt A F db ev) \<Longrightarrow>
   Flash ''success'' (Msg ''Family member request approved.'') \<notin> set ev \<Longrightarrow>
   \<exists>me ms rq. \<not> findById_err flt \<and> \<not> me_save_err flt \<and> findById A db = Some me \<and>
      familyMembers me = Some ms \<and> familyMemberRequests me = Some rq \<and>
      approve_me flt A F db ev =
        \<lparr>store = save_user (me\<lparr>familyMembers := Some (push_absent F ms),
                                familyMemberRequests := Some (filter (\<lambda>el. el \<noteq> F) rq)\<rparr>) db,
         events = ev @ [Flash ''success'' (Msg ''Family member request approved.''),
                        Redirect ''/account''],
         thrown = False\<rparr>"
  by (auto simp: approved_def approve_me_def Let_def handleError_def
           split: option.splits if_splits)

lemma approveFamily_cases:
  "approved (approveFamily L flt req db) \<Longrightarrow>
   \<exists>B ms. \<not> findOne_err flt \<and> \<not> user_save_err flt \<and> body_approve req = Some (JStr ''true'') \<and>
     findOne_email (normalizeEmail L (body_email req)) db = Some B \<and>
     familyMembers B = Some ms \<and>
     approveFamily L flt req db =
       approve_me flt (tok_id (req_user req)) (uid B)
         (save_user (B\<lparr>familyMembers := Some (push_absent (tok_id (req_user req)) ms)\<rparr>) db) []"
  by (auto simp: approved_def approveFamily_def reject_me_def Let_def handleError_def
           split: option.splits if_splits)

text \<open>
  Claim C1. When \<^verbatim>\<open>approveFamily\<close> reports success for the caller
  \<open>A\<close>, the e-mail resolved to a user \<open>B\<close>, and in the resulting
  collection \<open>B\<close> is in \<open>A\<close>'s \<open>familyMembers\<close> and
  \<open>A\<close> is in \<open>B\<close>'s; if no \<open>familyMembers\<close> list held a
  duplicate before, none does after (an id already present is not pushed again). The
  handler never looks for the pending request before it adds, so none is assumed, and the
  statement also covers \<open>A = B\<close>.
\<close>

theorem approveFamily_symmetric:
  assumes ok: "approved (approveFamily L flt req db)"
    and A: "A = tok_id (req_user req)"
  shows "\<exists>B A' B' msA msB.
           findOne_email (normalizeEmail L (body_email req)) db = Some B
         \<and> findById A (store (approveFamily L flt req db)) = Some A'
         \<and> findById (uid B) (store (approveFamily L flt req db)) = Some B'
         \<and> familyMembers A' = Some msA \<and> uid B \<in> set msA
         \<and> familyMembers B' = Some msB \<and> A \<in> set msB
         \<and> (no_duplicates db \<longrightarrow> no_duplicates (store (approveFamily L flt req db)))"
proof -
  from approveFamily_cases[OF ok] obtain B ms where
    B: "findOne_email (normalizeEmail L (body_email req)) db = Some B"
    and ms: "familyMembers B = Some ms"
    and eq: "approveFamily L flt req db =
       approve_me flt A (uid B) (save_user (B\<lparr>familyMembers := Some (push_absent A ms)\<rparr>) db) []"
    unfolding A by blast
  define B1 where "B1 = B\<lparr>familyMembers := Some (push_absent A ms)\<rparr>"
  define db1 where "db1 = save_user B1 db"
  have eq1: "approveFamily L flt req db = approve_me flt A (uid B) db1 []"
    using eq by (simp add: db1_def B1_def)
  from ok have "approved (approve_me flt A (uid B) db1 [])" by (simp add: eq1)
  from approve_me_cases[OF this] obtain me msA rq where
    me: "findById A db1 = Some me"
    and msA: "familyMembers me = Some msA"
    and rq: "familyMemberRequests me = Some rq"
    and st: "store (approve_me flt A (uid B) db1 []) =
        save_user (me\<lparr>familyMembers := Some (push_absent (uid B) msA),
                      familyMemberRequests := Some (filter (\<lambda>el. el \<noteq> uid B) rq)\<rparr>) db1"
    by force
  define A1 where "A1 = me\<lparr>familyMembers := Some (push_absent (uid B) msA),
                      familyMemberRequests := Some (filter (\<lambda>el. el \<noteq> uid B) rq)\<rparr>"
  have st': "store (approveFamily L flt req db) = save_user A1 db1"
    using st by (simp add: eq1 A1_def)
  have uidA1: "uid A1 = A" using findById_Some_uid[OF me] by (simp add: A1_def)
  have uidB1: "uid B1 = uid B" by (simp add: B1_def)
  have Bdb: "findById (uid B) db \<noteq> None"
    using findOne_email_Some[OF B] mem_findById by blast
  have fB1: "findById (uid B) db1 = Some B1"
    using Bdb by (simp add: db1_def findById_save_user uidB1)
  have fA: "findById A (save_user A1 db1) = Some A1"
    using me by (simp add: findById_save_user uidA1)
  have mA1: "familyMembers A1 = Some (push_absent (uid B) msA)" by (simp add: A1_def)
  have mB1: "familyMembers B1 = Some (push_absent A ms)" by (simp add: B1_def)
  have fB: "\<exists>B' msB. findById (uid B) (save_user A1 db1) = Some B' \<and>
              familyMembers B' = Some msB \<and> A \<in> set msB"
  proof (cases "uid B = A")
    case True
    with me fB1 have "me = B1" by simp
    with mB1 msA have "msA = push_absent A ms" by simp
    then have "A \<in> set msA" by (simp add: in_push_absent)
    then have "A \<in> set (push_absent (uid B) msA)" by (simp add: set_push_absent)
    with fA True mA1 show ?thesis by simp
  next
    case False
    then have "findById (uid B) (save_user A1 db1) = Some B1"
      using fB1 by (simp add: findById_save_user uidA1)
    with mB1 show ?thesis by (simp add: in_push_absent)
  qed
  have nd: "no_duplicates db \<longrightarrow> no_duplicates (save_user A1 db1)"
  proof
    assume nd0: "no_duplicates db"
    have "distinct ms" using nd0 findOne_email_Some[OF B] ms
      unfolding no_duplicates_def by fastforce
    then have nd1: "no_duplicates db1"
      unfolding db1_def using nd0 mB1
      by (intro no_duplicates_save_user) (simp_all add: distinct_push_absent)
    have "distinct msA" using no_duplicates_findById[OF nd1 me msA] .
    then show "no_duplicates (save_user A1 db1)"
      using nd1 mA1 by (intro no_duplicates_save_user) (simp_all add: distinct_push_absent)
  qed
  show ?thesis
    using B fA fB nd mA1 in_push_absent[of "uid B" msA] unfolding st' by auto
qed

text \<open>
  Alice approves Bob's pending request.
\<close>

theorem approveFamily_symmetric_witness:
  "approved (approveFamily lib0 no_faults (alice_resolves ''bob@example.com'' (Some (JStr ''true'')))
      [alice\<lparr>familyMemberRequests := Some [2]\<rparr>, bob])
   \<and> store (approveFamily lib0 no_faults (alice_resolves ''bob@example.com'' (Some (JStr ''true'')))
      [alice\<lparr>familyMemberRequests := Some [2]\<rparr>, bob])
     = [alice\<lparr>familyMembers := Some [2]\<rparr>, bob\<lparr>familyMembers := Some [1]\<rparr>]"
proof -
  have ok: "approved (approveFamily lib0 no_faults (alice_resolves ''bob@example.com'' (Some (JStr ''true'')))
      [alice\<lparr>familyMemberRequests := Some [2]\<rparr>, bob])"
    by (simp add: approved_def approveFamily_def approve_me_def Let_def ex_defs)
  from approveFamily_symmetric[OF ok refl] show ?thesis
    by (simp add: approved_def approveFamily_def approve_me_def Let_def ex_defs)
qed

text \<open>
  The two documents are saved one after the other. Here the second save fails: Bob's
  document has been written with Alice among his \<open>familyMembers\<close>, Alice's has
  not, and the handler only reports the error.
\<close>

theorem approveFamily_not_atomic:
  "approveFamily lib0 me_save_fails (alice_resolves ''bob@example.com'' (Some (JStr ''true'')))
     [alice\<lparr>familyMemberRequests := Some [2]\<rparr>, bob]
   = \<lparr>store = [alice\<lparr>familyMemberRequests := Some [2]\<rparr>, bob\<lparr>familyMembers := Some [1]\<rparr>],
      events = handleError StoreError, thrown = False\<rparr>
   \<and> map familyMembers [alice\<lparr>familyMemberRequests := Some [2]\<rparr>, bob]
       = [Some [], Some []]
   \<and> map familyMembers
        (store (approveFamily lib0 me_save_fails
                  (alice_resolves ''bob@example.com'' (Some (JStr ''true'')))
                  [alice\<lparr>familyMemberRequests := Some [2]\<rparr>, bob]))
       = [Some [], Some [1]]"
  by (simp add: approveFamily_def approve_me_def Let_def ex_defs)

text \<open>
  Claim C3, as the code has it. With \<open>approve = 'true'\<close> and the e-mail resolved
  to \<open>B\<close>, whose \<open>familyMembers\<close> is defined: if the save of
  \<open>B\<close>'s document fails, nothing is written and the error is reported; if it
  succeeds, that write stays in the collection whatever follows, and the caller's
  document is written on top of it exactly when success is reported. Nothing is rolled
  back or retried.
\<close>

theorem approveFamily_two_saves:
  assumes app: "body_approve req = Some (JStr ''true'')"
    and nofault: "\<not> findOne_err flt"
    and B: "findOne_email (normalizeEmail L (body_email req)) db = Some B"
    and ms: "familyMembers B = Some ms"
    and A: "A = tok_id (req_user req)"
    and db1: "db1 = save_user (B\<lparr>familyMembers := Some (push_absent A ms)\<rparr>) db"
  shows "(user_save_err flt \<longrightarrow>
            approveFamily L flt req db =
              \<lparr>store = db, events = handleError StoreError, thrown = False\<rparr>)
       \<and> (\<not> user_save_err flt \<and> \<not> approved (approveFamily L flt req db) \<longrightarrow>
            store (approveFamily L flt req db) = db1)
       \<and> (\<not> user_save_err flt \<and> approved (approveFamily L flt req db) \<longrightarrow>
            (\<exists>me msA rq. findById A db1 = Some me \<and> familyMembers me = Some msA
               \<and> familyMemberRequests me = Some rq
               \<and> store (approveFamily L flt req db) =
                   save_user (me\<lparr>familyMembers := Some (push_absent (uid B) msA),
                                 familyMemberRequests :=
                                   Some (filter (\<lambda>el. el \<noteq> uid B) rq)\<rparr>) db1))"
proof -
  have eq: "\<not> user_save_err flt \<Longrightarrow>
        approveFamily L flt req db = approve_me flt A (uid B) db1 []"
    using app nofault B ms by (simp add: approveFamily_def Let_def A db1)
  have 1: "user_save_err flt \<longrightarrow>
            approveFamily L flt req db =
              \<lparr>store = db, events = handleError StoreError, thrown = False\<rparr>"
    using app nofault B ms by (simp add: approveFamily_def Let_def)
  have 2: "\<not> user_save_err flt \<and> \<not> approved (approveFamily L flt req db) \<longrightarrow>
            store (approveFamily L flt req db) = db1"
    by (auto simp: eq approved_def approve_me_def Let_def split: option.splits if_splits)
  have 3: "\<not> user_save_err flt \<and> approved (approveFamily L flt req db) \<longrightarrow>
            (\<exists>me msA rq. findById A db1 = Some me \<and> familyMembers me = Some msA
               \<and> familyMemberRequests me = Some rq
               \<and> store (approveFamily L flt req db) =
                   save_user (me\<lparr>familyMembers := Some (push_absent (uid B) msA),
                                 familyMemberRequests :=
                                   Some (filter (\<lambda>el. el \<noteq> uid B) rq)\<rparr>) db1)"
  proof
    assume h: "\<not> user_save_err flt \<and> approved (approveFamily L flt req db)"
    then have ne: "\<not> user_save_err flt" by simp
    from h have "approved (approve_me flt A (uid B) db1 [])" by (simp add: eq[OF ne])
    from approve_me_cases[OF this] show "\<exists>me msA rq. findById A db1 = Some me \<and> familyMembers me = Some msA
               \<and> familyMemberRequests me = Some rq
               \<and> store (approveFamily L flt req db) =
                   save_user (me\<lparr>familyMembers := Some (push_absent (uid B) msA),
                                 familyMemberRequests :=
                                   Some (filter (\<lambda>el. el \<noteq> uid B) rq)\<rparr>) db1"
      by (force simp: eq[OF ne])
  qed
  from 1 2 3 show ?thesis by blast
qed

text \<open>
  Both cases on the scenario: the second save failing, and no failure.
\<close>

theorem approveFamily_two_saves_witness:
  "store (approveFamily lib0 me_save_fails (alice_resolves ''bob@example.com'' (Some (JStr ''true'')))
     [alice\<lparr>familyMemberRequests := Some [2]\<rparr>, bob])
   = [alice\<lparr>familyMemberRequests := Some [2]\<rparr>, bob\<lparr>familyMembers := Some [1]\<rparr>]
   \<and> store (approveFamily lib0 no_faults (alice_resolves ''bob@example.com'' (Some (JStr ''true'')))
     [alice\<lparr>familyMemberRequests := Some [2]\<rparr>, bob])
   = [alice\<lparr>familyMembers := Some [2]\<rparr>, bob\<lparr>familyMembers := Some [1]\<rparr>]"
proof -
  let ?req = "alice_resolves ''bob@example.com'' (Some (JStr ''true''))"
  let ?db = "[alice\<lparr>familyMemberRequests := Some [2]\<rparr>, bob]"
  have h1: "body_approve ?req = Some (JStr ''true'')" by (simp add: ex_defs)
  have h2: "\<not> findOne_err me_save_fails" by (simp add: ex_defs)
  have h2': "\<not> findOne_err no_faults" by (simp add: ex_defs)
  have h3: "findOne_email (normalizeEmail lib0 (body_email ?req)) ?db = Some bob"
    by (simp add: ex_defs)
  have h4: "familyMembers bob = Some []" by (simp add: ex_defs)
  have n: "\<not> approved (approveFamily lib0 me_save_fails ?req ?db)"
    by (simp add: approved_def approveFamily_def approve_me_def Let_def ex_defs)
  have y: "approved (approveFamily lib0 no_faults ?req ?db)"
    by (simp add: approved_def approveFamily_def approve_me_def Let_def ex_defs)
  show ?thesis
    using approveFamily_two_saves[OF h1 h2 h3 h4 refl refl] n
      approveFamily_two_saves[OF h1 h2' h3 h4 refl refl] y
    by (simp add: ex_defs)
qed

text \<open>
  Claim C5. \<^verbatim>\<open>approveFamily\<close> does not test \<^verbatim>\<open>user\<close>
  before reading \<^verbatim>\<open>user.id\<close> (\<^verbatim>\<open>addFamily\<close> does test
  \<^verbatim>\<open>!user\<close>). For an e-mail that no user has, the handler throws with no
  call made on the response; the collection is unchanged.
\<close>

theorem approveFamily_unknown_email_throws:
  "approveFamily lib0 no_faults (alice_resolves ''carol@example.com'' (Some (JStr ''true'')))
     [alice, bob]
   = \<lparr>store = [alice, bob], events = [], thrown = True\<rparr>"
  by (simp add: approveFamily_def Let_def ex_defs)



text \<open>
  A missing \<open>approve\<close> is the case of the first test of the handler: "Request
  error" is signalled; no branch is taken afterwards, so no document changes.
\<close>

lemma approveFamily_missing_approve:
  assumes "body_approve req = None"
    and "\<not> findOne_err flt"
  shows "store (approveFamily L flt req db) = db
       \<and> events (approveFamily L flt req db) = handleError (Msg ''Request error'')"
  using assms by (auto simp: approveFamily_def Let_def split: option.splits)

text \<open>
  Claim C10. When \<open>approve\<close> is present and is neither the string
  \<open>'true'\<close> nor the string \<open>'false'\<close>, and the lookup by e-mail does not
  fail in the store, the handler changes no document and makes no call on the response;
  when the e-mail resolves to a user it ends normally, having fallen through both branches.
\<close>

theorem approveFamily_other_value:
  assumes "body_approve req = Some v"
    and "v \<noteq> JStr ''true''"
    and "v \<noteq> JStr ''false''"
    and "\<not> findOne_err flt"
  shows "store (approveFamily L flt req db) = db
       \<and> events (approveFamily L flt req db) = []
       \<and> (findOne_email (normalizeEmail L (body_email req)) db \<noteq> None \<longrightarrow>
            \<not> thrown (approveFamily L flt req db))"
  using assms by (auto simp: approveFamily_def Let_def split: option.splits)

text \<open>
  Alice sends the JSON boolean \<open>true\<close>.
\<close>

theorem approveFamily_other_value_witness:
  "approveFamily lib0 no_faults (alice_resolves ''bob@example.com'' (Some (JBool True)))
      [alice\<lparr>familyMemberRequests := Some [2]\<rparr>, bob]
     = \<lparr>store = [alice\<lparr>familyMemberRequests := Some [2]\<rparr>, bob], events = [], thrown = False\<rparr>"
proof -
  have h1: "body_approve (alice_resolves ''bob@example.com'' (Some (JBool True)))
              = Some (JBool True)"
    by (simp add: ex_defs)
  have h4: "\<not> findOne_err no_faults" by (simp add: ex_defs)
  have h5: "findOne_email (normalizeEmail lib0
               (body_email (alice_resolves ''bob@example.com'' (Some (JBool True)))))
             [alice\<lparr>familyMemberRequests := Some [2]\<rparr>, bob] \<noteq> None"
    by (simp add: ex_defs)
  from approveFamily_other_value[OF h1 _ _ h4, of lib0 "[alice\<lparr>familyMemberRequests := Some [2]\<rparr>, bob]"] h5
  show ?thesis by (cases "approveFamily lib0 no_faults (alice_resolves ''bob@example.com'' (Some (JBool True)))
      [alice\<lparr>familyMemberRequests := Some [2]\<rparr>, bob]") simp
qed

section \<open>getExpenses\<close>

text \<open>
  The order of the sort is total and transitive, so insertion keeps a list sorted.
\<close>

lemma newer_total: "newer a b \<or> newer b a"
  by (auto simp: newer_def)

lemma newer_trans: "newer a b \<Longrightarrow> newer b c \<Longrightarrow> newer a c"
  by (auto simp: newer_def)

lemma mset_insert_sorted: "mset (insert_sorted x xs) = add_mset x (mset xs)"
  by (induction xs) auto

lemma set_insert_sorted: "set (insert_sorted x xs) = insert x (set xs)"
  by (induction xs) auto

lemma sorted_insert_sorted:
  "sorted_wrt newer xs \<Longrightarrow> sorted_wrt newer (insert_sorted x xs)"
proof (induction xs)
  case Nil
  then show ?case by simp
next
  case (Cons y ys)
  show ?case
  proof (cases "newer x y")
    case True
    then have "\<forall>z \<in> set ys. newer x z"
      using Cons.prems newer_trans by auto
    with True Cons.prems show ?thesis by simp
  next
    case False
    then have "newer y x" using newer_total by blast
    with False Cons show ?thesis by (auto simp: set_insert_sorted)
  qed
qed

lemma mset_sort_expenses: "mset (sort_expenses xs) = mset xs"
  unfolding sort_expenses_def by (induction xs) (simp_all add: mset_insert_sorted)

lemma set_sort_expenses: "set (sort_expenses xs) = set xs"
  using mset_sort_expenses[of xs] by (metis set_mset_mset)

lemma sorted_sort_expenses: "sorted_wrt newer (sort_expenses xs)"
  unfolding sort_expenses_def by (induction xs) (simp_all add: sorted_insert_sorted)

text \<open>
  What a successful \<^verbatim>\<open>formatExpenses\<close> returns.
\<close>

lemma format_el_Some:
  "format_el L userId el = Some f \<Longrightarrow>
   f_el f = el \<and> (\<exists>owner. p_user el = Some owner \<and>
     f_user f = (if uid owner = userId then ''Me''
                 else case profile owner of
                        None \<Rightarrow> email owner
                      | Some p \<Rightarrow> (case name p of
                                     None \<Rightarrow> email owner
                                   | Some n \<Rightarrow> if n = [] then email owner else n)))"
  by (auto simp: format_el_def Let_def split: option.splits)

lemma formatExpenses_Some:
  "formatExpenses L els userId = Some fs \<Longrightarrow>
   map f_el fs = els \<and> (\<forall>f \<in> set fs. format_el L userId (f_el f) = Some f)"
proof (induction els arbitrary: fs)
  case Nil
  then show ?case by simp
next
  case (Cons el els)
  then show ?case
    using format_el_Some[of L userId el]
    by (auto split: option.splits)
qed

lemma formatExpenses_total:
  "\<forall>el \<in> set els. p_user el \<noteq> None \<Longrightarrow> \<exists>fs. formatExpenses L els userId = Some fs"
  by (induction els) (auto simp: format_el_def Let_def split: option.splits)

text \<open>
  A 200 answer of \<^verbatim>\<open>getExpenses\<close> carries the formatted, sorted and
  filtered expenses.
\<close>

lemma getExpenses_ok:
  "Respond 200 (ExpensesBody fs cs) \<in> set (events (getExpenses L flt usr users currencies db)) \<Longrightarrow>
   \<exists>family. tok_familyMembers usr = Some family \<and> cs = currencies \<and>
     formatExpenses L
       (map (populate users currencies)
          (sort_expenses (filter (\<lambda>e. user_id e \<in> set (tok_id usr # family)) db)))
       (tok_id usr) = Some fs"
  by (auto simp: getExpenses_def Let_def split: option.splits if_splits)

lemma map_p_expense_populate: "map (p_expense \<circ> populate users currencies) xs = xs"
  by (induction xs) (simp_all add: populate_def)

lemma getExpenses_ok_expenses:
  assumes "Respond 200 (ExpensesBody fs cs) \<in> set (events (getExpenses L flt usr users currencies db))"
  shows "map (p_expense \<circ> f_el) fs =
           sort_expenses (filter (\<lambda>e. user_id e \<in> tokenOwners usr) db)"
proof -
  from getExpenses_ok[OF assms] obtain family where
    fam: "tok_familyMembers usr = Some family"
    and fs: "formatExpenses L
       (map (populate users currencies)
          (sort_expenses (filter (\<lambda>e. user_id e \<in> set (tok_id usr # family)) db)))
       (tok_id usr) = Some fs"
    by blast
  from formatExpenses_Some[OF fs] have
    "map f_el fs = map (populate users currencies)
          (sort_expenses (filter (\<lambda>e. user_id e \<in> set (tok_id usr # family)) db))"
    by simp
  then have "map p_expense (map f_el fs) = map p_expense (map (populate users currencies)
          (sort_expenses (filter (\<lambda>e. user_id e \<in> set (tok_id usr # family)) db)))"
    by simp
  then show ?thesis
    using fam by (simp add: map_p_expense_populate tokenOwners_def)
qed

text \<open>
  As the specification words it, over the stored list, the claim fails for a token
  older than an approval: Bob's stored \<open>familyMembers\<close> holds Alice, so her
  expense \<open>lunch\<close> is owned by a visible owner, but with the token of his login
  the answer holds his own expense only.
\<close>

theorem getExpenses_stale_token:
  "visibleOwners family 2 = {1, 2}
   \<and> lunch \<in> set [lunch, taxi, rent]
   \<and> user_id lunch \<in> visibleOwners family 2
   \<and> getExpenses lib0 \<lparr>expense_find_err = False, currency_find_err = False\<rparr>
         bob_login_token family [usd] [lunch, taxi, rent]
       = \<lparr>store = [lunch, taxi, rent],
          events = [Respond 200 (ExpensesBody
            [\<lparr>f_el = \<lparr>p_expense = taxi, p_user = Some (bob\<lparr>familyMembers := Some [1]\<rparr>),
                      p_currency = Some usd\<rparr>,
              f_user = ''Me'', f_date = ''01-01-2024 Mon''\<rparr>] [usd])],
          thrown = False\<rparr>"
  by (auto simp: getExpenses_def Let_def ex2_defs ex_defs)

text \<open>
  Claim C2, as the code has it. The caller's id is in \<open>tokenOwners\<close>. Whenever
  \<^verbatim>\<open>getExpenses\<close> answers 200, the expenses in the answer are exactly
  (as a multiset) the stored expenses whose \<open>user_id\<close> is the caller's id or is
  in the \<open>familyMembers\<close> list carried by the caller's token, so none has an
  owner outside that set and every expense of the caller is among them. That set is
  \<open>visibleOwners\<close> of the caller when the token's list is the list stored for
  the caller. The handler does answer 200 when the token carries a
  \<open>familyMembers\<close> list, neither query fails and the owner of every such
  expense still has a document.
\<close>

theorem getExpenses_visible:
  "tok_id usr \<in> tokenOwners usr
   \<and> (\<forall>fs cs. Respond 200 (ExpensesBody fs cs)
                 \<in> set (events (getExpenses L flt usr users currencies db)) \<longrightarrow>
        (\<forall>f \<in> set fs. user_id (p_expense (f_el f)) \<in> tokenOwners usr)
        \<and> mset (map (p_expense \<circ> f_el) fs)
            = mset (filter (\<lambda>e. user_id e \<in> tokenOwners usr) db))
   \<and> ((\<exists>viewer. findById (tok_id usr) users = Some viewer
                 \<and> familyMembers viewer = tok_familyMembers usr) \<longrightarrow>
        tokenOwners usr = visibleOwners users (tok_id usr))
   \<and> (tok_familyMembers usr \<noteq> None
        \<and> \<not> expense_find_err flt \<and> \<not> currency_find_err flt
        \<and> (\<forall>e \<in> set db. user_id e \<in> tokenOwners usr \<longrightarrow> findById (user_id e) users \<noteq> None)
      \<longrightarrow> (\<exists>fs. getExpenses L flt usr users currencies db =
                  \<lparr>store = db, events = [Respond 200 (ExpensesBody fs currencies)],
                   thrown = False\<rparr>))"
proof (intro conjI allI impI)
  show "tok_id usr \<in> tokenOwners usr" by (simp add: tokenOwners_def)
next
  fix fs cs
  assume ok: "Respond 200 (ExpensesBody fs cs)
                 \<in> set (events (getExpenses L flt usr users currencies db))"
  have eq: "map (p_expense \<circ> f_el) fs =
           sort_expenses (filter (\<lambda>e. user_id e \<in> tokenOwners usr) db)"
    using getExpenses_ok_expenses[OF ok] .
  show "mset (map (p_expense \<circ> f_el) fs)
            = mset (filter (\<lambda>e. user_id e \<in> tokenOwners usr) db)"
    by (simp only: eq mset_sort_expenses)
  have "set (map (p_expense \<circ> f_el) fs) = set (filter (\<lambda>e. user_id e \<in> tokenOwners usr) db)"
    by (simp only: eq set_sort_expenses)
  then show "\<forall>f \<in> set fs. user_id (p_expense (f_el f)) \<in> tokenOwners usr"
    by auto
next
  assume "\<exists>viewer. findById (tok_id usr) users = Some viewer
                 \<and> familyMembers viewer = tok_familyMembers usr"
  then show "tokenOwners usr = visibleOwners users (tok_id usr)"
    by (auto simp: tokenOwners_def visibleOwners_def)
next
  assume h: "tok_familyMembers usr \<noteq> None
        \<and> \<not> expense_find_err flt \<and> \<not> currency_find_err flt
        \<and> (\<forall>e \<in> set db. user_id e \<in> tokenOwners usr \<longrightarrow> findById (user_id e) users \<noteq> None)"
  then obtain family where fam: "tok_familyMembers usr = Some family" by auto
  let ?els = "map (populate users currencies)
          (sort_expenses (filter (\<lambda>e. user_id e \<in> set (tok_id usr # family)) db))"
  have "\<forall>el \<in> set ?els. p_user el \<noteq> None"
    using h fam by (auto simp: set_sort_expenses populate_def tokenOwners_def)
  from formatExpenses_total[OF this] obtain fs where
    "formatExpenses L ?els (tok_id usr) = Some fs" by blast
  then show "\<exists>fs. getExpenses L flt usr users currencies db =
                  \<lparr>store = db, events = [Respond 200 (ExpensesBody fs currencies)],
                   thrown = False\<rparr>"
    using h fam by (simp add: getExpenses_def Let_def)
qed

text \<open>
  Bob, linked to Alice, lists the expenses: his own and Alice's, not the third user's.
\<close>

theorem getExpenses_visible_witness:
  "getExpenses lib0 \<lparr>expense_find_err = False, currency_find_err = False\<rparr> bob_token family [usd]
     [lunch, taxi, rent]
   = \<lparr>store = [lunch, taxi, rent],
      events = [Respond 200 (ExpensesBody
        [\<lparr>f_el = \<lparr>p_expense = taxi, p_user = Some (bob\<lparr>familyMembers := Some [1]\<rparr>),
                  p_currency = Some usd\<rparr>,
          f_user = ''Me'', f_date = ''01-01-2024 Mon''\<rparr>,
         \<lparr>f_el = \<lparr>p_expense = lunch, p_user = Some (alice\<lparr>familyMembers := Some [2]\<rparr>),
                  p_currency = Some usd\<rparr>,
          f_user = ''Alice'', f_date = ''01-01-2024 Mon''\<rparr>] [usd])],
      thrown = False\<rparr>
   \<and> filter (\<lambda>e. user_id e \<in> tokenOwners bob_token) [lunch, taxi, rent] = [lunch, taxi]
   \<and> tokenOwners bob_token = visibleOwners family (tok_id bob_token)"
proof -
  let ?r = "getExpenses lib0 \<lparr>expense_find_err = False, currency_find_err = False\<rparr> bob_token
              family [usd] [lunch, taxi, rent]"
  have h: "tok_familyMembers bob_token \<noteq> None
        \<and> \<not> expense_find_err \<lparr>expense_find_err = False, currency_find_err = False\<rparr>
        \<and> \<not> currency_find_err \<lparr>expense_find_err = False, currency_find_err = False\<rparr>
        \<and> (\<forall>e \<in> set [lunch, taxi, rent]. user_id e \<in> tokenOwners bob_token \<longrightarrow>
              findById (user_id e) family \<noteq> None)"
    by (simp add: ex2_defs ex_defs)
  from getExpenses_visible[where usr = bob_token and L = lib0
         and flt = "\<lparr>expense_find_err = False, currency_find_err = False\<rparr>"
         and users = family and currencies = "[usd]" and db = "[lunch, taxi, rent]"] h
  obtain fs where fs: "?r = \<lparr>store = [lunch, taxi, rent],
      events = [Respond 200 (ExpensesBody fs [usd])], thrown = False\<rparr>"
    by blast
  have "?r = \<lparr>store = [lunch, taxi, rent],
      events = [Respond 200 (ExpensesBody
        [\<lparr>f_el = \<lparr>p_expense = taxi, p_user = Some (bob\<lparr>familyMembers := Some [1]\<rparr>),
                  p_currency = Some usd\<rparr>,
          f_user = ''Me'', f_date = ''01-01-2024 Mon''\<rparr>,
         \<lparr>f_el = \<lparr>p_expense = lunch, p_user = Some (alice\<lparr>familyMembers := Some [2]\<rparr>),
                  p_currency = Some usd\<rparr>,
          f_user = ''Alice'', f_date = ''01-01-2024 Mon''\<rparr>] [usd])],
      thrown = False\<rparr>"
    using fs by (simp add: getExpenses_def Let_def ex2_defs ex_defs)
  moreover have "filter (\<lambda>e. user_id e \<in> tokenOwners bob_token) [lunch, taxi, rent] = [lunch, taxi]"
    by (simp add: ex2_defs)
  moreover have "tokenOwners bob_token = visibleOwners family (tok_id bob_token)"
  proof -
    have "\<exists>viewer. findById (tok_id bob_token) family = Some viewer
                 \<and> familyMembers viewer = tok_familyMembers bob_token"
      by (simp add: ex2_defs ex_defs)
    with getExpenses_visible[where usr = bob_token and L = lib0
         and flt = "\<lparr>expense_find_err = False, currency_find_err = False\<rparr>"
         and users = family and currencies = "[usd]" and db = "[lunch, taxi, rent]"]
    show ?thesis by blast
  qed
  ultimately show ?thesis by simp
qed

text \<open>
  Claim C8. In a 200 answer of \<^verbatim>\<open>getExpenses\<close> the expenses are sorted
  by \<open>date\<close> descending, and by \<open>updatedAt\<close> descending among equal
  dates; each carries the label \<open>''Me''\<close> when its owner is the viewer, and
  otherwise the name of its owner's profile, or the owner's e-mail when the profile or
  the name is missing or the name is empty.
\<close>

theorem getExpenses_sorted_labelled:
  assumes ok: "Respond 200 (ExpensesBody fs cs)
                 \<in> set (events (getExpenses L flt usr users currencies db))"
  shows "sorted_wrt (\<lambda>a b. date b < date a \<or> (date a = date b \<and> updatedAt b \<le> updatedAt a))
           (map (p_expense \<circ> f_el) fs)
       \<and> (\<forall>f \<in> set fs. \<exists>owner.
             findById (user_id (p_expense (f_el f))) users = Some owner
           \<and> f_user f =
               (if user_id (p_expense (f_el f)) = tok_id usr then ''Me''
                else case profile owner of
                       None \<Rightarrow> email owner
                     | Some p \<Rightarrow> (case name p of
                                    None \<Rightarrow> email owner
                                  | Some n \<Rightarrow> if n = [] then email owner else n)))"
proof
  have "sorted_wrt newer (map (p_expense \<circ> f_el) fs)"
    by (simp only: getExpenses_ok_expenses[OF ok] sorted_sort_expenses)
  then show "sorted_wrt (\<lambda>a b. date b < date a \<or> (date a = date b \<and> updatedAt b \<le> updatedAt a))
           (map (p_expense \<circ> f_el) fs)"
    unfolding newer_def .
next
  from getExpenses_ok[OF ok] obtain family where
    fs: "formatExpenses L
       (map (populate users currencies)
          (sort_expenses (filter (\<lambda>e. user_id e \<in> set (tok_id usr # family)) db)))
       (tok_id usr) = Some fs"
    by blast
  note F = formatExpenses_Some[OF fs]
  show "\<forall>f \<in> set fs. \<exists>owner.
             findById (user_id (p_expense (f_el f))) users = Some owner
           \<and> f_user f =
               (if user_id (p_expense (f_el f)) = tok_id usr then ''Me''
                else case profile owner of
                       None \<Rightarrow> email owner
                     | Some p \<Rightarrow> (case name p of
                                    None \<Rightarrow> email owner
                                  | Some n \<Rightarrow> if n = [] then email owner else n))"
  proof
    fix f assume f: "f \<in> set fs"
    with F have fe: "format_el L (tok_id usr) (f_el f) = Some f" by blast
    from f F have "f_el f \<in> set (map (populate users currencies)
          (sort_expenses (filter (\<lambda>e. user_id e \<in> set (tok_id usr # family)) db)))"
      by (metis imageI list.set_map)
    then obtain e where e: "f_el f = populate users currencies e" by auto
    from format_el_Some[OF fe] obtain owner where
      o: "p_user (f_el f) = Some owner"
      and l: "f_user f = (if uid owner = tok_id usr then ''Me''
                 else case profile owner of
                        None \<Rightarrow> email owner
                      | Some p \<Rightarrow> (case name p of
                                     None \<Rightarrow> email owner
                                   | Some n \<Rightarrow> if n = [] then email owner else n))"
      by blast
    from o e have fo: "findById (user_id (p_expense (f_el f))) users = Some owner"
      by (simp add: populate_def)
    from findById_Some_uid[OF fo] have "uid owner = user_id (p_expense (f_el f))" by simp
    with fo l show "\<exists>owner.
             findById (user_id (p_expense (f_el f))) users = Some owner
           \<and> f_user f =
               (if user_id (p_expense (f_el f)) = tok_id usr then ''Me''
                else case profile owner of
                       None \<Rightarrow> email owner
                     | Some p \<Rightarrow> (case name p of
                                    None \<Rightarrow> email owner
                                  | Some n \<Rightarrow> if n = [] then email owner else n))"
      by auto
  qed
qed

text \<open>
  Bob's list: his own expense first (same date, updated later), labelled \<open>''Me''\<close>,
  then Alice's, labelled with her name.
\<close>

theorem getExpenses_sorted_labelled_witness:
  "Respond 200 (ExpensesBody
        [\<lparr>f_el = \<lparr>p_expense = taxi, p_user = Some (bob\<lparr>familyMembers := Some [1]\<rparr>),
                  p_currency = Some usd\<rparr>,
          f_user = ''Me'', f_date = ''01-01-2024 Mon''\<rparr>,
         \<lparr>f_el = \<lparr>p_expense = lunch, p_user = Some (alice\<lparr>familyMembers := Some [2]\<rparr>),
                  p_currency = Some usd\<rparr>,
          f_user = ''Alice'', f_date = ''01-01-2024 Mon''\<rparr>] [usd])
     \<in> set (events (getExpenses lib0 \<lparr>expense_find_err = False, currency_find_err = False\<rparr>
                bob_token family [usd] [lunch, taxi, rent]))
   \<and> sorted_wrt (\<lambda>a b. date b < date a \<or> (date a = date b \<and> updatedAt b \<le> updatedAt a))
        [taxi, lunch]"
proof -
  have ok: "Respond 200 (ExpensesBody
        [\<lparr>f_el = \<lparr>p_expense = taxi, p_user = Some (bob\<lparr>familyMembers := Some [1]\<rparr>),
                  p_currency = Some usd\<rparr>,
          f_user = ''Me'', f_date = ''01-01-2024 Mon''\<rparr>,
         \<lparr>f_el = \<lparr>p_expense = lunch, p_user = Some (alice\<lparr>familyMembers := Some [2]\<rparr>),
                  p_currency = Some usd\<rparr>,
          f_user = ''Alice'', f_date = ''01-01-2024 Mon''\<rparr>] [usd])
     \<in> set (events (getExpenses lib0 \<lparr>expense_find_err = False, currency_find_err = False\<rparr>
                bob_token family [usd] [lunch, taxi, rent]))"
    by (simp add: getExpenses_def Let_def ex2_defs ex_defs)
  from getExpenses_sorted_labelled[OF ok] ok show ?thesis by simp
qed

section \<open>postExpense\<close>

text \<open>
  The claim fails on both sides. An amount of one space is not rejected: the expense is
  stored and sent back with 200. A currency that is present but is no ObjectId passes
  the validation, and then no expense is created and nothing is answered: the
  constructor throws.
\<close>

theorem postExpense_blank_and_bad_currency:
  "postExpense lib0 \<lparr>save_err = False, new_id = 10, now = 1704070000000\<rparr>
     (alice_posts\<lparr>body_amount := Some '' ''\<rparr>) [] =
     \<lparr>store = [lunch\<lparr>amount := '' ''\<rparr>],
      events = [Respond 200 (ExpenseBody (lunch\<lparr>amount := '' ''\<rparr>))],
      thrown = False\<rparr>
   \<and> postExpense lib0 \<lparr>save_err = False, new_id = 10, now = 1704070000000\<rparr>
       (alice_posts\<lparr>body_currency := Some ''USD''\<rparr>) [] =
     \<lparr>store = [], events = [], thrown = True\<rparr>"
  by (simp add: postExpense_def Let_def ex2_defs ex_defs)

text \<open>
  Claim C7, as the code has it. If one of \<open>amount\<close>, \<open>date\<close>,
  \<open>category\<close>, \<open>currency\<close> is missing or is the empty string,
  \<^verbatim>\<open>postExpense\<close> answers 400 with the validation errors and stores
  nothing. Otherwise every expense it stores or sends back has the caller's id as
  \<open>user_id\<close>, whatever the body holds, and when the currency string is an
  ObjectId and the save succeeds exactly one such expense is appended and sent back
  with 200.
\<close>

theorem postExpense_owner:
  "(body_amount req \<in> {None, Some []} \<or> body_date req \<in> {None, Some []}
      \<or> body_category req \<in> {None, Some []} \<or> body_currency req \<in> {None, Some []} \<longrightarrow>
      (\<exists>errors. errors \<noteq> [] \<and>
         postExpense L env req db =
           \<lparr>store = db, events = [Respond 400 (ErrorBody (ValidationErrors errors))],
            thrown = False\<rparr>))
   \<and> (body_amount req \<notin> {None, Some []} \<and> body_date req \<notin> {None, Some []}
        \<and> body_category req \<notin> {None, Some []} \<and> body_currency req \<notin> {None, Some []} \<longrightarrow>
        (\<forall>e. Respond 200 (ExpenseBody e) \<in> set (events (postExpense L env req db)) \<longrightarrow>
              user_id e = tok_id (ereq_user req))
      \<and> (\<forall>e \<in> set (store (postExpense L env req db)).
              e \<in> set db \<or> user_id e = tok_id (ereq_user req))
      \<and> ((\<exists>cur c. body_currency req = Some cur \<and> ObjectId L cur = Some c) \<and> \<not> save_err env \<longrightarrow>
           (\<exists>e. user_id e = tok_id (ereq_user req) \<and>
              postExpense L env req db =
                \<lparr>store = db @ [e], events = [Respond 200 (ExpenseBody e)], thrown = False\<rparr>)))"
proof -
  have ne: "\<And>v. notEmpty v \<longleftrightarrow> v \<notin> {None, Some []}"
    by (auto simp: notEmpty_def Suc_le_eq split: option.splits)
  have "(\<not> (notEmpty (body_amount req) \<and> notEmpty (body_date req)
        \<and> notEmpty (body_category req) \<and> notEmpty (body_currency req)) \<longrightarrow>
      (\<exists>errors. errors \<noteq> [] \<and>
         postExpense L env req db =
           \<lparr>store = db, events = [Respond 400 (ErrorBody (ValidationErrors errors))],
            thrown = False\<rparr>))
   \<and> (notEmpty (body_amount req) \<and> notEmpty (body_date req)
        \<and> notEmpty (body_category req) \<and> notEmpty (body_currency req) \<longrightarrow>
        (\<forall>e. Respond 200 (ExpenseBody e) \<in> set (events (postExpense L env req db)) \<longrightarrow>
              user_id e = tok_id (ereq_user req))
      \<and> (\<forall>e \<in> set (store (postExpense L env req db)).
              e \<in> set db \<or> user_id e = tok_id (ereq_user req))
      \<and> ((\<exists>cur c. body_currency req = Some cur \<and> ObjectId L cur = Some c) \<and> \<not> save_err env \<longrightarrow>
           (\<exists>e. user_id e = tok_id (ereq_user req) \<and>
              postExpense L env req db =
                \<lparr>store = db @ [e], events = [Respond 200 (ExpenseBody e)], thrown = False\<rparr>)))"
    by (auto simp: postExpense_def Let_def notEmpty_def split: option.splits)
  then show ?thesis unfolding ne by blast
qed

text \<open>
  Alice posts the expense of the scenario with another user's id in the body, and then
  with an empty amount.
\<close>

theorem postExpense_owner_witness:
  "postExpense lib0 \<lparr>save_err = False, new_id = 10, now = 1704070000000\<rparr> alice_posts [] =
     \<lparr>store = [lunch], events = [Respond 200 (ExpenseBody lunch)], thrown = False\<rparr>
   \<and> postExpense lib0 \<lparr>save_err = False, new_id = 10, now = 1704070000000\<rparr>
       (alice_posts\<lparr>body_amount := Some []\<rparr>) [] =
     \<lparr>store = [],
      events = [Respond 400 (ErrorBody (ValidationErrors [''Amount can not be blank'']))],
      thrown = False\<rparr>"
proof -
  have v: "body_amount alice_posts \<notin> {None, Some []} \<and> body_date alice_posts \<notin> {None, Some []}
        \<and> body_category alice_posts \<notin> {None, Some []}
        \<and> body_currency alice_posts \<notin> {None, Some []}"
    by (simp add: ex2_defs)
  have c: "(\<exists>cur c. body_currency alice_posts = Some cur \<and> ObjectId lib0 cur = Some c)
           \<and> \<not> save_err \<lparr>save_err = False, new_id = 10, now = 1704070000000\<rparr>"
    by (simp add: ex2_defs ex_defs)
  have nv: "body_amount (alice_posts\<lparr>body_amount := Some []\<rparr>) \<in> {None, Some []}"
    by (simp add: ex2_defs)
  have 1: "postExpense lib0 \<lparr>save_err = False, new_id = 10, now = 1704070000000\<rparr> alice_posts [] =
     \<lparr>store = [lunch], events = [Respond 200 (ExpenseBody lunch)], thrown = False\<rparr>"
    by (simp add: postExpense_def Let_def ex2_defs ex_defs)
  have 2: "postExpense lib0 \<lparr>save_err = False, new_id = 10, now = 1704070000000\<rparr>
       (alice_posts\<lparr>body_amount := Some []\<rparr>) [] =
     \<lparr>store = [],
      events = [Respond 400 (ErrorBody (ValidationErrors [''Amount can not be blank'']))],
      thrown = False\<rparr>"
    by (simp add: postExpense_def Let_def ex2_defs ex_defs)
  have 3: "\<forall>e \<in> set (store (postExpense lib0
              \<lparr>save_err = False, new_id = 10, now = 1704070000000\<rparr> alice_posts [])).
            e \<in> set [] \<or> user_id e = tok_id (ereq_user alice_posts)"
    using postExpense_owner[where req = alice_posts and L = lib0
      and env = "\<lparr>save_err = False, new_id = 10, now = 1704070000000\<rparr>" and db = "[]"] v
    by blast
  have 4: "\<exists>errors. errors \<noteq> [] \<and>
         postExpense lib0 \<lparr>save_err = False, new_id = 10, now = 1704070000000\<rparr>
           (alice_posts\<lparr>body_amount := Some []\<rparr>) [] =
           \<lparr>store = [], events = [Respond 400 (ErrorBody (ValidationErrors errors))],
            thrown = False\<rparr>"
    using postExpense_owner[where req = "alice_posts\<lparr>body_amount := Some []\<rparr>" and L = lib0
      and env = "\<lparr>save_err = False, new_id = 10, now = 1704070000000\<rparr>" and db = "[]"] nv
    by blast
  have 5: "\<exists>e. user_id e = tok_id (ereq_user alice_posts) \<and>
              postExpense lib0 \<lparr>save_err = False, new_id = 10, now = 1704070000000\<rparr>
                alice_posts [] =
                \<lparr>store = [] @ [e], events = [Respond 200 (ExpenseBody e)], thrown = False\<rparr>"
    using postExpense_owner[where req = alice_posts and L = lib0
      and env = "\<lparr>save_err = False, new_id = 10, now = 1704070000000\<rparr>" and db = "[]"] v c
    by blast
  from 1 2 3 4 5 show ?thesis by simp
qed

section \<open>Fault paths\<close>

text \<open>
  Claim C9. Two fault paths that do not end where the error is signalled. When
  \<^verbatim>\<open>expense.save\<close> fails, \<^verbatim>\<open>postExpense\<close> sends the
  500 and, with no \<^verbatim>\<open>return\<close> after it, the 200 with the expense as
  well. When \<open>approve\<close> is missing, \<^verbatim>\<open>approveFamily\<close>
  signals "Request error" and runs on into the lookup; if that fails it signals a
  second error and then throws on \<^verbatim>\<open>user.id\<close>.
\<close>

theorem fault_paths_run_on:
  "postExpense lib0 \<lparr>save_err = True, new_id = 10, now = 1704070000000\<rparr> alice_posts [] =
     \<lparr>store = [],
      events = [Respond 500 (ErrorBody StoreError), Respond 200 (ExpenseBody lunch)],
      thrown = False\<rparr>
   \<and> approveFamily lib0
       \<lparr>findOne_err = True, user_save_err = False, findById_err = False, me_save_err = False\<rparr>
       (alice_resolves ''bob@example.com'' None) [alice, bob] =
     \<lparr>store = [alice, bob],
      events = [Flash ''errors'' (Msg ''Request error''), Redirect ''/account'',
                Flash ''errors'' StoreError, Redirect ''/account''],
      thrown = True\<rparr>"
  by (simp add: postExpense_def approveFamily_def Let_def ex2_defs ex_defs)

end
